theory Spec2Isabelle
  imports Main
begin

section \<open>Python values and their textual form\<close>

text \<open>
  The payloads of both services are Python dictionaries with string keys
  (\<^verbatim>\<open>Dict[str, Any]\<close>), and every dictionary the services return is built from
  booleans, integers and strings. A value is modelled by the datatype below; a
  dictionary is the list of its items in insertion order. Integers are unbounded, as
  in Python. A string is a list of code points below 256, one \<^typ>\<open>char\<close> each, so
  that \<^const>\<open>length\<close> counts what Python's \<^verbatim>\<open>len\<close> counts. Floats and objects of
  user-defined classes are outside the model.
\<close>

datatype pyval =
    PNone
  | PBool bool
  | PInt int
  | PStr string
  | PList "pyval list"
  | PDict "(string \<times> pyval) list"

type_synonym payload = "(string \<times> pyval) list"

text \<open>
  The character of a digit below 16, and the decimal digits of a natural number and of
  an integer: \<^verbatim>\<open>str(n)\<close>.
\<close>

definition digit_char :: "nat \<Rightarrow> char" where
  "digit_char d = ''0123456789abcdef'' ! d"

fun str_nat :: "nat \<Rightarrow> string" where
  "str_nat n =
     (if n < 10 then [digit_char n] else str_nat (n div 10) @ [digit_char (n mod 10)])"

declare str_nat.simps [simp del]

definition str_int :: "int \<Rightarrow> string" where
  "str_int i = (if i < 0 then CHR ''-'' # str_nat (nat (- i)) else str_nat (nat i))"

text \<open>\<^verbatim>\<open>sep.join(xs)\<close>.\<close>

fun join :: "string \<Rightarrow> string list \<Rightarrow> string" where
  "join sep [] = []"
| "join sep [x] = x"
| "join sep (x # y # ys) = x @ sep @ join sep (y # ys)"

text \<open>
  \<^verbatim>\<open>repr\<close> of a string. The quote is the single quote, unless the string holds a
  single quote and no double quote. The quote and the backslash are escaped with a
  backslash, tab, newline and carriage return by their letter, every other code point
  that is not printable by two hexadecimal digits. Below 256 the code points that are
  not printable are the controls (below 32, and 127 to 159), the no-break space (160)
  and the soft hyphen (173).
\<close>

definition squote :: char where "squote = CHR 0x27"
definition dquote :: char where "dquote = CHR 0x22"
definition backslash :: char where "backslash = CHR 0x5C"

definition isprintable :: "char \<Rightarrow> bool" where
  "isprintable c =
     (let n = (of_char c :: nat) in (32 \<le> n \<and> n < 127) \<or> (160 < n \<and> n \<noteq> 173))"

definition repr_char :: "char \<Rightarrow> char \<Rightarrow> string" where
  "repr_char quote c =
     (if c = quote \<or> c = backslash then [backslash, c]
      else if c = CHR 0x09 then [backslash, CHR ''t'']
      else if c = CHR 0x0A then [backslash, CHR ''n'']
      else if c = CHR 0x0D then [backslash, CHR ''r'']
      else if isprintable c then [c]
      else [backslash, CHR ''x'',
            digit_char (of_char c div 16), digit_char (of_char c mod 16)])"

definition repr_str :: "string \<Rightarrow> string" where
  "repr_str s =
     (let quote = (if squote \<in> set s \<and> dquote \<notin> set s then dquote else squote)
      in quote # concat (map (repr_char quote) s) @ [quote])"

text \<open>\<^verbatim>\<open>repr\<close> of a value, and \<^verbatim>\<open>str\<close>, which differs from it on strings only.\<close>

fun repr :: "pyval \<Rightarrow> string" where
  "repr PNone = ''None''"
| "repr (PBool b) = (if b then ''True'' else ''False'')"
| "repr (PInt i) = str_int i"
| "repr (PStr s) = repr_str s"
| "repr (PList xs) = ''['' @ join '', '' (map repr xs) @ '']''"
| "repr (PDict kvs) =
     ''{'' @ join '', '' (map (\<lambda>(k, v). repr_str k @ '': '' @ repr v) kvs) @ ''}''"

fun str :: "pyval \<Rightarrow> string" where
  "str (PStr s) = s"
| "str v = repr v"

section \<open>Calls, exceptions and the log\<close>

text \<open>
  Every method is a coroutine without a suspension point: awaited, it runs to its end.
  A call is modelled by a function from the object before the call to an outcome: the
  value returned or the exception raised, the messages handed to the module's logger
  (at level INFO), and the object after the call. The only exception the source raises
  is Python's \<^verbatim>\<open>RuntimeError\<close>, which carries its message.
\<close>

datatype error = RuntimeError string

type_synonym ('a, 's) outcome = "(error + 'a) \<times> string list \<times> 's"

definition result_of :: "('a, 's) outcome \<Rightarrow> error + 'a" where
  "result_of r = fst r"

definition log_of :: "('a, 's) outcome \<Rightarrow> string list" where
  "log_of r = fst (snd r)"

definition state_of :: "('a, 's) outcome \<Rightarrow> 's" where
  "state_of r = snd (snd r)"

section \<open>The memory service\<close>

record MemoryService =
  initialized :: bool

text \<open>\<^verbatim>\<open>MemoryService.__init__\<close>\<close>

definition MemoryService_init :: MemoryService where
  "MemoryService_init = \<lparr> MemoryService.initialized = False \<rparr>"

definition MemoryService_initialize :: "MemoryService \<Rightarrow> (unit, MemoryService) outcome" where
  "MemoryService_initialize self =
     (Inr (), [''Memory service initialized (placeholder)''],
      self\<lparr> MemoryService.initialized := True \<rparr>)"

definition save_conversation :: "MemoryService \<Rightarrow> payload \<Rightarrow> (string, MemoryService) outcome" where
  "save_conversation self conversation_data =
     (if \<not> MemoryService.initialized self
      then (Inl (RuntimeError ''Memory service not initialized''), [], self)
      else let conversation_id = ''conv_'' @ str_nat (length (str (PDict conversation_data)))
           in (Inr conversation_id, [''Saved conversation '' @ conversation_id], self))"

definition get_conversations ::
  "MemoryService \<Rightarrow> string \<Rightarrow> int \<Rightarrow> (payload list, MemoryService) outcome" where
  "get_conversations self user_id limit =
     (if \<not> MemoryService.initialized self
      then (Inl (RuntimeError ''Memory service not initialized''), [], self)
      else (Inr [], [], self))"

definition save_preferences ::
  "MemoryService \<Rightarrow> string \<Rightarrow> payload \<Rightarrow> (unit, MemoryService) outcome" where
  "save_preferences self user_id preferences =
     (if \<not> MemoryService.initialized self
      then (Inl (RuntimeError ''Memory service not initialized''), [], self)
      else (Inr (), [''Saved preferences for user '' @ user_id], self))"

definition MemoryService_get_status :: "MemoryService \<Rightarrow> (payload, MemoryService) outcome" where
  "MemoryService_get_status self =
     (Inr [(''available'', PBool (MemoryService.initialized self)),
           (''type'', PStr ''placeholder''),
           (''storage_backend'', PStr ''none'')], [], self)"

section \<open>The payment service\<close>

record PaymentService =
  initialized :: bool

text \<open>\<^verbatim>\<open>PaymentService.__init__\<close>\<close>

definition PaymentService_init :: PaymentService where
  "PaymentService_init = \<lparr> PaymentService.initialized = False \<rparr>"

definition PaymentService_initialize :: "PaymentService \<Rightarrow> (unit, PaymentService) outcome" where
  "PaymentService_initialize self =
     (Inr (), [''Payment service initialized (placeholder)''],
      self\<lparr> PaymentService.initialized := True \<rparr>)"

definition process_payment :: "PaymentService \<Rightarrow> payload \<Rightarrow> (payload, PaymentService) outcome" where
  "process_payment self payment_data =
     (if \<not> PaymentService.initialized self
      then (Inl (RuntimeError ''Payment service not initialized''), [], self)
      else (Inr [(''success'', PBool True),
                 (''transaction_id'', PStr ''txn_placeholder''),
                 (''message'', PStr ''Payment processed (placeholder)'')], [], self))"

definition get_usage_stats :: "PaymentService \<Rightarrow> string \<Rightarrow> (payload, PaymentService) outcome" where
  "get_usage_stats self user_id =
     (if \<not> PaymentService.initialized self
      then (Inl (RuntimeError ''Payment service not initialized''), [], self)
      else (Inr [(''usage'', PStr ''unlimited''),
                 (''tier'', PStr ''free''),
                 (''requests_made'', PInt 0),
                 (''requests_remaining'', PStr ''unlimited'')], [], self))"

definition PaymentService_get_status :: "PaymentService \<Rightarrow> (payload, PaymentService) outcome" where
  "PaymentService_get_status self =
     (Inr [(''available'', PBool (PaymentService.initialized self)),
           (''type'', PStr ''placeholder''),
           (''payment_backend'', PStr ''none'')], [], self)"

section \<open>Sequences of calls\<close>

text \<open>
  A caller holds one object of each class and calls its methods one after another; a
  call that raises leaves the caller free to go on with the same object. A call is a
  method with its arguments (\<^verbatim>\<open>limit\<close> may be left out, and is then 50); its value
  is a Python value, \<^verbatim>\<open>None\<close> for the methods that return nothing.
\<close>

datatype memory_call =
    M_initialize
  | M_save_conversation payload
  | M_get_conversations string "int option"
  | M_save_preferences string payload
  | M_get_status

datatype payment_call =
    P_initialize
  | P_process_payment payload
  | P_get_usage_stats string
  | P_get_status

definition returning :: "('a \<Rightarrow> pyval) \<Rightarrow> ('a, 's) outcome \<Rightarrow> (pyval, 's) outcome" where
  "returning f r = (map_sum id f (fst r), snd r)"

fun memory_step :: "MemoryService \<Rightarrow> memory_call \<Rightarrow> (pyval, MemoryService) outcome" where
  "memory_step self M_initialize = returning (\<lambda>_. PNone) (MemoryService_initialize self)"
| "memory_step self (M_save_conversation d) = returning PStr (save_conversation self d)"
| "memory_step self (M_get_conversations u lim) =
     returning (\<lambda>ds. PList (map PDict ds))
       (get_conversations self u (case lim of None \<Rightarrow> 50 | Some l \<Rightarrow> l))"
| "memory_step self (M_save_preferences u d) = returning (\<lambda>_. PNone) (save_preferences self u d)"
| "memory_step self M_get_status = returning PDict (MemoryService_get_status self)"

fun payment_step :: "PaymentService \<Rightarrow> payment_call \<Rightarrow> (pyval, PaymentService) outcome" where
  "payment_step self P_initialize = returning (\<lambda>_. PNone) (PaymentService_initialize self)"
| "payment_step self (P_process_payment d) = returning PDict (process_payment self d)"
| "payment_step self (P_get_usage_stats u) = returning PDict (get_usage_stats self u)"
| "payment_step self P_get_status = returning PDict (PaymentService_get_status self)"

fun memory_run :: "MemoryService \<Rightarrow> memory_call list \<Rightarrow> MemoryService" where
  "memory_run self [] = self"
| "memory_run self (c # cs) = memory_run (state_of (memory_step self c)) cs"

fun payment_run :: "PaymentService \<Rightarrow> payment_call list \<Rightarrow> PaymentService" where
  "payment_run self [] = self"
| "payment_run self (c # cs) = payment_run (state_of (payment_step self c)) cs"

section \<open>Auxiliary facts\<close>

lemmas outcome_defs = result_of_def log_of_def state_of_def returning_def

lemmas memory_defs =
  MemoryService_init_def MemoryService_initialize_def save_conversation_def
  get_conversations_def save_preferences_def MemoryService_get_status_def

lemmas payment_defs =
  PaymentService_init_def PaymentService_initialize_def process_payment_def
  get_usage_stats_def PaymentService_get_status_def

lemma memory_step_state:
  "state_of (memory_step m c) =
     (if c = M_initialize then m\<lparr> MemoryService.initialized := True \<rparr> else m)"
  by (cases c) (simp_all add: outcome_defs memory_defs Let_def)

lemma payment_step_state:
  "state_of (payment_step p c) =
     (if c = P_initialize then p\<lparr> PaymentService.initialized := True \<rparr> else p)"
  by (cases c) (simp_all add: outcome_defs payment_defs)

lemma memory_run_initialized:
  "MemoryService.initialized m \<Longrightarrow> MemoryService.initialized (memory_run m cs)"
  by (induction cs arbitrary: m) (simp_all add: memory_step_state)

lemma payment_run_initialized:
  "PaymentService.initialized p \<Longrightarrow> PaymentService.initialized (payment_run p cs)"
  by (induction cs arbitrary: p) (simp_all add: payment_step_state)

lemma memory_step_error:
  "result_of (memory_step m c) = Inl e \<Longrightarrow>
     e = RuntimeError ''Memory service not initialized'' \<and> \<not> MemoryService.initialized m
     \<and> c \<noteq> M_initialize \<and> c \<noteq> M_get_status"
  by (cases c) (auto simp: outcome_defs memory_defs Let_def split: if_splits)

lemma payment_step_error:
  "result_of (payment_step p c) = Inl e \<Longrightarrow>
     e = RuntimeError ''Payment service not initialized'' \<and> \<not> PaymentService.initialized p
     \<and> c \<noteq> P_initialize \<and> c \<noteq> P_get_status"
  by (cases c) (auto simp: outcome_defs payment_defs split: if_splits)



section \<open>The claims\<close>





text \<open>
  Claim C3. On an initialized payment service \<^verbatim>\<open>process_payment\<close> returns, for every
  payload, the same dictionary: \<^verbatim>\<open>success\<close> is \<^verbatim>\<open>True\<close> and \<^verbatim>\<open>transaction_id\<close>
  is the constant \<^verbatim>\<open>txn_placeholder\<close>. The whole outcome does not depend on the payload.
\<close>

theorem process_payment_success:
  "PaymentService.initialized p \<Longrightarrow>
     result_of (process_payment p d) =
       Inr [(''success'', PBool True),
            (''transaction_id'', PStr ''txn_placeholder''),
            (''message'', PStr ''Payment processed (placeholder)'')]
   \<and> (\<exists>r. result_of (process_payment p d) = Inr r
          \<and> map_of r ''success'' = Some (PBool True)
          \<and> map_of r ''transaction_id'' = Some (PStr ''txn_placeholder''))
   \<and> process_payment p d = process_payment p d'"
  by (simp add: process_payment_def result_of_def)

theorem process_payment_success_witness:
  "PaymentService.initialized (state_of (PaymentService_initialize PaymentService_init))
   \<and> result_of (process_payment (state_of (PaymentService_initialize PaymentService_init))
        [(''amount'', PInt 5)]) =
       Inr [(''success'', PBool True),
            (''transaction_id'', PStr ''txn_placeholder''),
            (''message'', PStr ''Payment processed (placeholder)'')]
   \<and> process_payment (state_of (PaymentService_initialize PaymentService_init))
        [(''amount'', PInt 5)]
     = process_payment (state_of (PaymentService_initialize PaymentService_init)) []"
proof -
  have h: "PaymentService.initialized (state_of (PaymentService_initialize PaymentService_init))"
    by (simp add: PaymentService_initialize_def state_of_def)
  from process_payment_success [OF h, of "[(''amount'', PInt 5)]" "[]"] h show ?thesis by blast
qed

text \<open>
  Claim C4. In every state, initialized or not, \<^verbatim>\<open>get_status\<close> of either service
  returns (it never raises) a dictionary of three entries: \<^verbatim>\<open>available\<close>, which is the
  \<^verbatim>\<open>initialized\<close> flag, \<^verbatim>\<open>type\<close>, which is the constant \<^verbatim>\<open>placeholder\<close>, and
  the backend (under the key \<^verbatim>\<open>storage_backend\<close> in the memory service and
  \<^verbatim>\<open>payment_backend\<close> in the payment service), which is the constant \<^verbatim>\<open>none\<close>. The
  object is left as it was. After \<^verbatim>\<open>initialize\<close>, \<^verbatim>\<open>available\<close> is \<^verbatim>\<open>True\<close>.
\<close>

theorem get_status_report:
  "result_of (MemoryService_get_status m) =
       Inr [(''available'', PBool (MemoryService.initialized m)),
            (''type'', PStr ''placeholder''),
            (''storage_backend'', PStr ''none'')]
   \<and> state_of (MemoryService_get_status m) = m
   \<and> result_of (PaymentService_get_status p) =
       Inr [(''available'', PBool (PaymentService.initialized p)),
            (''type'', PStr ''placeholder''),
            (''payment_backend'', PStr ''none'')]
   \<and> state_of (PaymentService_get_status p) = p
   \<and> result_of (MemoryService_get_status (state_of (MemoryService_initialize m))) =
       Inr [(''available'', PBool True),
            (''type'', PStr ''placeholder''),
            (''storage_backend'', PStr ''none'')]
   \<and> result_of (PaymentService_get_status (state_of (PaymentService_initialize p))) =
       Inr [(''available'', PBool True),
            (''type'', PStr ''placeholder''),
            (''payment_backend'', PStr ''none'')]"
  by (simp add: outcome_defs memory_defs payment_defs)

text \<open>
  Claim C5. On an initialized memory service \<^verbatim>\<open>get_conversations\<close> returns the empty
  list for every user and every limit, given or left out; the whole outcome is the same
  for any two users and limits.
\<close>

theorem get_conversations_empty:
  "MemoryService.initialized m \<Longrightarrow>
     result_of (get_conversations m u lim) = Inr []
   \<and> state_of (get_conversations m u lim) = m
   \<and> get_conversations m u lim = get_conversations m u' lim'
   \<and> result_of (memory_step m (M_get_conversations u l)) = Inr (PList [])"
  by (simp add: outcome_defs get_conversations_def)

theorem get_conversations_empty_witness:
  "MemoryService.initialized (state_of (MemoryService_initialize MemoryService_init))
   \<and> result_of (get_conversations (state_of (MemoryService_initialize MemoryService_init))
        ''u1'' 50) = Inr []
   \<and> result_of (memory_step (state_of (MemoryService_initialize MemoryService_init))
        (M_get_conversations ''u1'' None)) = Inr (PList [])"
proof -
  have h: "MemoryService.initialized (state_of (MemoryService_initialize MemoryService_init))"
    by (simp add: MemoryService_initialize_def state_of_def)
  from get_conversations_empty [OF h, of "''u1''" 50 "''u2''" 7 None] h show ?thesis by blast
qed

text \<open>
  Claim C6. On an initialized payment service \<^verbatim>\<open>get_usage_stats\<close> returns, for every
  user, the same dictionary: usage \<^verbatim>\<open>unlimited\<close>, tier \<^verbatim>\<open>free\<close>, 0 requests made,
  \<^verbatim>\<open>unlimited\<close> requests remaining. The whole outcome does not depend on the user.
\<close>

theorem get_usage_stats_constant:
  "PaymentService.initialized p \<Longrightarrow>
     result_of (get_usage_stats p u) =
       Inr [(''usage'', PStr ''unlimited''),
            (''tier'', PStr ''free''),
            (''requests_made'', PInt 0),
            (''requests_remaining'', PStr ''unlimited'')]
   \<and> state_of (get_usage_stats p u) = p
   \<and> get_usage_stats p u = get_usage_stats p u'"
  by (simp add: outcome_defs get_usage_stats_def)

theorem get_usage_stats_constant_witness:
  "PaymentService.initialized (state_of (PaymentService_initialize PaymentService_init))
   \<and> result_of (get_usage_stats (state_of (PaymentService_initialize PaymentService_init))
        ''u1'') =
       Inr [(''usage'', PStr ''unlimited''),
            (''tier'', PStr ''free''),
            (''requests_made'', PInt 0),
            (''requests_remaining'', PStr ''unlimited'')]
   \<and> get_usage_stats (state_of (PaymentService_initialize PaymentService_init)) ''u1''
     = get_usage_stats (state_of (PaymentService_initialize PaymentService_init)) ''u2''"
proof -
  have h: "PaymentService.initialized (state_of (PaymentService_initialize PaymentService_init))"
    by (simp add: PaymentService_initialize_def state_of_def)
  from get_usage_stats_constant [OF h, of "''u1''" "''u2''"] h show ?thesis by blast
qed

text \<open>
  Claim C7. For both services: a new object is not initialized; an object is determined
  by its \<^verbatim>\<open>initialized\<close> flag; \<^verbatim>\<open>initialize\<close> sets the flag; no call other than
  \<^verbatim>\<open>initialize\<close> changes the object; no call takes the flag from true to false; and
  after \<^verbatim>\<open>initialize\<close> every sequence of calls ends with the flag set.
\<close>

theorem initialized_monotonic:
  "\<not> MemoryService.initialized MemoryService_init
   \<and> \<not> PaymentService.initialized PaymentService_init
   \<and> (MemoryService.initialized m = MemoryService.initialized m' \<longrightarrow> m = m')
   \<and> (PaymentService.initialized p = PaymentService.initialized p' \<longrightarrow> p = p')
   \<and> MemoryService.initialized (state_of (MemoryService_initialize m))
   \<and> PaymentService.initialized (state_of (PaymentService_initialize p))
   \<and> (c \<noteq> M_initialize \<longrightarrow> state_of (memory_step m c) = m)
   \<and> (k \<noteq> P_initialize \<longrightarrow> state_of (payment_step p k) = p)
   \<and> (MemoryService.initialized m \<longrightarrow> MemoryService.initialized (state_of (memory_step m c)))
   \<and> (PaymentService.initialized p \<longrightarrow> PaymentService.initialized (state_of (payment_step p k)))
   \<and> MemoryService.initialized (memory_run (state_of (MemoryService_initialize m)) cs)
   \<and> PaymentService.initialized (payment_run (state_of (PaymentService_initialize p)) ks)"
proof -
  have im: "MemoryService.initialized (state_of (MemoryService_initialize m))"
    by (simp add: MemoryService_initialize_def state_of_def)
  have ip: "PaymentService.initialized (state_of (PaymentService_initialize p))"
    by (simp add: PaymentService_initialize_def state_of_def)
  have "\<not> MemoryService.initialized MemoryService_init"
    by (simp add: MemoryService_init_def)
  moreover have "\<not> PaymentService.initialized PaymentService_init"
    by (simp add: PaymentService_init_def)
  moreover have "MemoryService.initialized m = MemoryService.initialized m' \<longrightarrow> m = m'"
    by simp
  moreover have "PaymentService.initialized p = PaymentService.initialized p' \<longrightarrow> p = p'"
    by simp
  moreover have "c \<noteq> M_initialize \<longrightarrow> state_of (memory_step m c) = m"
    by (simp add: memory_step_state)
  moreover have "k \<noteq> P_initialize \<longrightarrow> state_of (payment_step p k) = p"
    by (simp add: payment_step_state)
  moreover have "MemoryService.initialized m \<longrightarrow>
      MemoryService.initialized (state_of (memory_step m c))"
    by (simp add: memory_step_state)
  moreover have "PaymentService.initialized p \<longrightarrow>
      PaymentService.initialized (state_of (payment_step p k))"
    by (simp add: payment_step_state)
  moreover note im ip memory_run_initialized [OF im, of cs] payment_run_initialized [OF ip, of ks]
  ultimately show ?thesis by blast
qed

theorem initialized_monotonic_witness:
  "MemoryService.initialized (state_of (MemoryService_initialize MemoryService_init))
   \<and> PaymentService.initialized (state_of (PaymentService_initialize PaymentService_init))
   \<and> M_save_conversation [(''a'', PInt 1)] \<noteq> M_initialize
   \<and> P_process_payment [] \<noteq> P_initialize
   \<and> state_of (memory_step (state_of (MemoryService_initialize MemoryService_init))
        (M_save_conversation [(''a'', PInt 1)]))
      = state_of (MemoryService_initialize MemoryService_init)
   \<and> state_of (payment_step (state_of (PaymentService_initialize PaymentService_init))
        (P_process_payment []))
      = state_of (PaymentService_initialize PaymentService_init)
   \<and> MemoryService.initialized
       (memory_run (state_of (MemoryService_initialize MemoryService_init))
          [M_save_conversation [(''a'', PInt 1)], M_get_conversations ''u1'' (Some 50),
           M_initialize, M_get_status])
   \<and> PaymentService.initialized
       (payment_run (state_of (PaymentService_initialize PaymentService_init))
          [P_process_payment [], P_get_usage_stats ''u1'', P_initialize, P_get_status])"
proof -
  have nm: "M_save_conversation [(''a'', PInt 1)] \<noteq> M_initialize" by simp
  have np: "P_process_payment [] \<noteq> P_initialize" by simp
  from initialized_monotonic [of "state_of (MemoryService_initialize MemoryService_init)"
              "state_of (MemoryService_initialize MemoryService_init)"
              "state_of (PaymentService_initialize PaymentService_init)"
              "state_of (PaymentService_initialize PaymentService_init)"
              "M_save_conversation [(''a'', PInt 1)]" "P_process_payment []"
              "[M_save_conversation [(''a'', PInt 1)], M_get_conversations ''u1'' (Some 50),
                M_initialize, M_get_status]"
              "[P_process_payment [], P_get_usage_stats ''u1'', P_initialize, P_get_status]"]
       initialized_monotonic [of MemoryService_init MemoryService_init PaymentService_init PaymentService_init
              "M_save_conversation [(''a'', PInt 1)]" "P_process_payment []"
              "[M_save_conversation [(''a'', PInt 1)], M_get_conversations ''u1'' (Some 50),
                M_initialize, M_get_status]"
              "[P_process_payment [], P_get_usage_stats ''u1'', P_initialize, P_get_status]"]
       nm np
  show ?thesis by (simp add: MemoryService_initialize_def PaymentService_initialize_def state_of_def)
qed

text \<open>
  Claim C8. For both services and from every state, \<^verbatim>\<open>initialize\<close> returns without
  raising, and the object after two calls of \<^verbatim>\<open>initialize\<close> in a row is the object
  after one.
\<close>

theorem initialize_idempotent:
  "result_of (MemoryService_initialize m) = Inr ()
   \<and> state_of (MemoryService_initialize (state_of (MemoryService_initialize m)))
        = state_of (MemoryService_initialize m)
   \<and> result_of (PaymentService_initialize p) = Inr ()
   \<and> state_of (PaymentService_initialize (state_of (PaymentService_initialize p)))
        = state_of (PaymentService_initialize p)"
  by (simp add: outcome_defs MemoryService_initialize_def PaymentService_initialize_def)

text \<open>
  Claim C9. On an initialized memory service \<^verbatim>\<open>save_preferences\<close> returns no value
  (\<^verbatim>\<open>None\<close>) and leaves the object, that is the \<^verbatim>\<open>initialized\<close> flag, as it was,
  for every user and all preferences. (The one message it hands to the logger is not
  part of the object.)
\<close>

theorem save_preferences_no_effect:
  "MemoryService.initialized m \<Longrightarrow>
     result_of (save_preferences m u d) = Inr ()
   \<and> state_of (save_preferences m u d) = m
   \<and> result_of (memory_step m (M_save_preferences u d)) = Inr PNone
   \<and> state_of (memory_step m (M_save_preferences u d)) = m"
  by (simp add: outcome_defs save_preferences_def)

theorem save_preferences_no_effect_witness:
  "MemoryService.initialized (state_of (MemoryService_initialize MemoryService_init))
   \<and> result_of (save_preferences (state_of (MemoryService_initialize MemoryService_init))
        ''u1'' [(''theme'', PStr ''dark'')]) = Inr ()
   \<and> state_of (save_preferences (state_of (MemoryService_initialize MemoryService_init))
        ''u1'' [(''theme'', PStr ''dark'')])
      = state_of (MemoryService_initialize MemoryService_init)"
proof -
  have h: "MemoryService.initialized (state_of (MemoryService_initialize MemoryService_init))"
    by (simp add: MemoryService_initialize_def state_of_def)
  from save_preferences_no_effect [OF h, of "''u1''" "[(''theme'', PStr ''dark'')]"] h show ?thesis by blast
qed

text \<open>
  Claim C10. For both services: when a call raises, the object after the call is the
  object before it, its flag is still unset, and every later call behaves as it would
  have without the failed one.
\<close>

theorem failed_call_leaves_state:
  "(result_of (memory_step m c) = Inl e \<longrightarrow>
       state_of (memory_step m c) = m
     \<and> \<not> MemoryService.initialized (state_of (memory_step m c))
     \<and> memory_step (state_of (memory_step m c)) c_next = memory_step m c_next)
   \<and> (result_of (payment_step p k) = Inl e' \<longrightarrow>
       state_of (payment_step p k) = p
     \<and> \<not> PaymentService.initialized (state_of (payment_step p k))
     \<and> payment_step (state_of (payment_step p k)) k_next = payment_step p k_next)"
proof -
  have "state_of (memory_step m c) = m \<and> \<not> MemoryService.initialized m"
    if "result_of (memory_step m c) = Inl e"
    using memory_step_error [OF that] by (simp add: memory_step_state)
  moreover have "state_of (payment_step p k) = p \<and> \<not> PaymentService.initialized p"
    if "result_of (payment_step p k) = Inl e'"
    using payment_step_error [OF that] by (simp add: payment_step_state)
  ultimately show ?thesis by auto
qed

theorem failed_call_leaves_state_witness:
  "result_of (memory_step MemoryService_init (M_save_conversation [(''a'', PInt 1)]))
      = Inl (RuntimeError ''Memory service not initialized'')
   \<and> state_of (memory_step MemoryService_init (M_save_conversation [(''a'', PInt 1)]))
      = MemoryService_init
   \<and> \<not> MemoryService.initialized
        (state_of (memory_step MemoryService_init (M_save_conversation [(''a'', PInt 1)])))
   \<and> memory_step
         (state_of (memory_step MemoryService_init (M_save_conversation [(''a'', PInt 1)])))
         M_get_status
      = memory_step MemoryService_init M_get_status
   \<and> result_of (payment_step PaymentService_init (P_process_payment []))
      = Inl (RuntimeError ''Payment service not initialized'')
   \<and> state_of (payment_step PaymentService_init (P_process_payment []))
      = PaymentService_init
   \<and> payment_step (state_of (payment_step PaymentService_init (P_process_payment [])))
         P_get_status
      = payment_step PaymentService_init P_get_status
   \<and> \<not> PaymentService.initialized
        (state_of (payment_step PaymentService_init (P_process_payment [])))"
proof -
  have hm: "result_of (memory_step MemoryService_init (M_save_conversation [(''a'', PInt 1)]))
      = Inl (RuntimeError ''Memory service not initialized'')"
    by (simp add: outcome_defs memory_defs)
  have hp: "result_of (payment_step PaymentService_init (P_process_payment []))
      = Inl (RuntimeError ''Payment service not initialized'')"
    by (simp add: outcome_defs payment_defs)
  from failed_call_leaves_state [of MemoryService_init "M_save_conversation [(''a'', PInt 1)]"
               "RuntimeError ''Memory service not initialized''" M_get_status
               PaymentService_init "P_process_payment []"
               "RuntimeError ''Payment service not initialized''" P_get_status]
       hm hp
  show ?thesis by blast
qed

end
